theory Spec2Isabelle
  imports Main "HOL-Library.Sublist"
begin

section \<open>ECMAScript string primitives used by the worker\<close>

text \<open>
  The worker (\<^verbatim>\<open>src/index.ts\<close>) is built from calls to the platform's string
  functions. They are embedded here the way ECMA-262 defines them, since several claims
  depend on what \<^verbatim>\<open>String.prototype.replaceAll\<close> does with its replacement
  argument. A string is a list of code units; the model uses HOL's 8-bit \<^typ>\<open>char\<close>,
  so the alphabet is the Latin-1 range (the only line terminators in it are LF and CR).
\<close>

definition is_digit :: "char \<Rightarrow> bool" where
  "is_digit c = (c \<in> set ''0123456789'')"

definition digit_val :: "char \<Rightarrow> nat" where
  "digit_val c = length (takeWhile (\<lambda>d. d \<noteq> c) ''0123456789'')"

text \<open>
  One iteration of the loop of the abstract operation GetSubstitution: isolate the
  reference \<open>ref\<close> at the head of the non-empty template remainder and return its
  replacement together with the length of \<open>ref\<close>. \<open>captures\<close> is the list of
  capture groups (empty for a string pattern); there are no named captures anywhere in
  the worker, so \<^verbatim>\<open>$<\<close> is always literal. The case order is the standard's:
  \<^verbatim>\<open>$$\<close>, \<^verbatim>\<open>$`\<close>, \<^verbatim>\<open>$&\<close>, \<^verbatim>\<open>$'\<close>, \<^verbatim>\<open>$n\<close>/\<^verbatim>\<open>$nn\<close>, \<^verbatim>\<open>$<\<close>, any
  other code unit.
\<close>

definition next_ref :: "string \<Rightarrow> string \<Rightarrow> nat \<Rightarrow> string list \<Rightarrow> string \<Rightarrow> string \<times> nat" where
  "next_ref matched str position captures templateRemainder =
     (if prefix ''$$'' templateRemainder then (''$'', 2)
      else if prefix [CHR ''$'', CHR 0x60] templateRemainder then (take position str, 2)
      else if prefix ''$&'' templateRemainder then (matched, 2)
      else if prefix [CHR ''$'', CHR 0x27] templateRemainder then
        (drop (min (position + length matched) (length str)) str, 2)
      else if prefix ''$'' templateRemainder \<and> 2 \<le> length templateRemainder
              \<and> is_digit (templateRemainder ! 1) then
        (let two = (3 \<le> length templateRemainder \<and> is_digit (templateRemainder ! 2));
             index2 = 10 * digit_val (templateRemainder ! 1) + digit_val (templateRemainder ! 2);
             digitCount = (if two \<and> \<not> length captures < index2 then 2 else 1 :: nat);
             index = (if digitCount = 2 then index2 else digit_val (templateRemainder ! 1));
             ref = take (1 + digitCount) templateRemainder
         in if 1 \<le> index \<and> index \<le> length captures
            then (captures ! (index - 1), 1 + digitCount)
            else (ref, 1 + digitCount))
      else if prefix ''$<'' templateRemainder then (''$<'', 2)
      else (take 1 templateRemainder, 1))"

fun get_substitution :: "string \<Rightarrow> string \<Rightarrow> nat \<Rightarrow> string list \<Rightarrow> string \<Rightarrow> string" where
  "get_substitution matched str position captures [] = []"
| "get_substitution matched str position captures (c # t) =
     (let (refReplacement, n) = next_ref matched str position captures (c # t)
      in refReplacement @ get_substitution matched str position captures (drop (n - 1) t))"

text \<open>
  \<^verbatim>\<open>str.replaceAll(searchString, replaceValue)\<close> for a string pattern and a string
  replacement. ECMA-262 collects the match positions with StringIndexOf, advancing by
  \<open>max 1 (length searchString)\<close> after each match, and then joins the preserved
  pieces with \<open>GetSubstitution(searchString, str, p, [], undefined, replaceValue)\<close>.
  The scan below does both in one pass from left to right: \<open>position\<close> is the
  index in \<open>str\<close> of the head of the part still to be read. The empty pattern matches
  at every index, the end of the string included.
\<close>

fun replace_scan :: "string \<Rightarrow> string \<Rightarrow> string \<Rightarrow> nat \<Rightarrow> string \<Rightarrow> string" where
  "replace_scan str searchString replaceValue position [] =
     (if searchString = [] then get_substitution [] str position [] replaceValue else [])"
| "replace_scan str searchString replaceValue position (c # rest) =
     (if searchString = [] then
        get_substitution [] str position [] replaceValue
          @ c # replace_scan str searchString replaceValue (Suc position) rest
      else if prefix searchString (c # rest) then
        get_substitution searchString str position [] replaceValue
          @ replace_scan str searchString replaceValue (position + length searchString)
              (drop (length searchString - 1) rest)
      else c # replace_scan str searchString replaceValue (Suc position) rest)"

definition replaceAll :: "string \<Rightarrow> string \<Rightarrow> string \<Rightarrow> string" where
  "replaceAll str searchString replaceValue = replace_scan str searchString replaceValue 0 str"

text \<open>\<^verbatim>\<open>s.includes(t)\<close> and \<^verbatim>\<open>s.startsWith(t)\<close>.\<close>

definition includes_str :: "string \<Rightarrow> string \<Rightarrow> bool" where
  "includes_str s t = sublist t s"

definition startsWith :: "string \<Rightarrow> string \<Rightarrow> bool" where
  "startsWith s t = prefix t s"

section \<open>URL objects\<close>

text \<open>
  The worker only reads properties of the platform's \<^verbatim>\<open>URL\<close> objects, so a URL is
  the record of the properties it reads, as strings, each as the getter returns it
  (\<open>protocol\<close> with its colon, \<open>port\<close> empty for the scheme's default port). Parsing
  and relative resolution belong to the platform and are parameters of the functions that
  call them.
\<close>

record url =
  href :: string
  origin :: string
  protocol :: string
  hostname :: string
  port :: string
  pathname :: string

text \<open>
  What the platform guarantees of an \<^verbatim>\<open>http:\<close> or \<^verbatim>\<open>https:\<close> URL: the origin is
  the scheme, \<^verbatim>\<open>//\<close>, the host name and the port if there is one; the host name is not
  empty and holds no slash.
\<close>

definition http_url :: "url \<Rightarrow> bool" where
  "http_url u =
     (origin u = protocol u @ ''//'' @ hostname u @ (if port u = [] then [] else '':'' @ port u)
      \<and> hostname u \<noteq> [] \<and> CHR ''/'' \<notin> set (hostname u))"

section \<open>The rule engine: \<^verbatim>\<open>rewrite\<close>\<close>

definition hostPort :: "url \<Rightarrow> string" where
  "hostPort u = (if port u \<noteq> [] then hostname u @ '':'' @ port u else hostname u)"

text \<open>
  \<^verbatim>\<open>rewrite(originURL, publicURL)\<close> returns a closure over the two URLs; the closure's
  argument is \<^verbatim>\<open>string | null\<close>, here \<^typ>\<open>string option\<close>. The seven
  \<^verbatim>\<open>replaceAll\<close> calls are chained in the order of the source.
\<close>

definition rewrite :: "url \<Rightarrow> url \<Rightarrow> string option \<Rightarrow> string" where
  "rewrite originURL publicURL text =
     (case text of
        None \<Rightarrow> []
      | Some t \<Rightarrow>
          (let originURLHostPort = hostPort originURL;
               publicURLHostPort = hostPort publicURL;
               t1 = replaceAll t [CHR 0x27, CHR ''/''] ([CHR 0x27] @ origin publicURL @ ''/'');
               t2 = replaceAll t1 [CHR 0x22, CHR ''/''] ([CHR 0x22] @ origin publicURL @ ''/'');
               t3 = replaceAll t2 ''</'' (''<'' @ origin publicURL @ ''/'');
               t4 = replaceAll t3
                      (replaceAll (origin originURL) ''/'' [CHR 0x5C, CHR ''/''])
                      (replaceAll (origin publicURL) ''/'' [CHR 0x5C, CHR ''/'']
                         @ replaceAll (pathname publicURL) ''/'' [CHR 0x5C, CHR ''/'']);
               t5 = replaceAll t4 (origin originURL) (origin publicURL);
               t6 = replaceAll t5
                      (''//'' @ originURLHostPort @ pathname originURL)
                      (''//'' @ publicURLHostPort @ pathname publicURL @ ''/'')
           in replaceAll t6 (hostname originURL) publicURLHostPort))"

section \<open>The streaming rewriters\<close>

subsection \<open>\<^verbatim>\<open>TextRewriter\<close>\<close>

text \<open>
  A text chunk event as the HTML tokenizer delivers it: its text and the flag
  \<^verbatim>\<open>lastInTextNode\<close>. The handler either replaces the chunk by markup
  (\<^verbatim>\<open>text.replace(s, { html: true })\<close>) or removes it (\<^verbatim>\<open>text.remove()\<close>).
\<close>

record text_chunk =
  chunk_text :: string
  lastInTextNode :: bool

datatype text_action = Replace string | Remove

text \<open>
  The method \<^verbatim>\<open>text\<close> of the class: the instance's \<open>buffer\<close> is passed in and
  returned updated, next to what was done to the chunk.
\<close>

definition TextRewriter_text :: "(string \<Rightarrow> string) \<Rightarrow> string \<Rightarrow> text_chunk \<Rightarrow> string \<times> text_action" where
  "TextRewriter_text rewriter buffer t =
     (let buffer1 = buffer @ chunk_text t
      in if lastInTextNode t then ([], Replace (rewriter buffer1)) else (buffer1, Remove))"

text \<open>One instance handling the chunk events of a stream, in arrival order.\<close>

fun TextRewriter_run :: "(string \<Rightarrow> string) \<Rightarrow> string \<Rightarrow> text_chunk list \<Rightarrow> string \<times> text_action list" where
  "TextRewriter_run rewriter buffer [] = (buffer, [])"
| "TextRewriter_run rewriter buffer (t # ts) =
     (let (buffer1, a) = TextRewriter_text rewriter buffer t;
          (buffer2, as) = TextRewriter_run rewriter buffer1 ts
      in (buffer2, a # as))"

text \<open>
  A logical text node delivered in chunks: the texts of its non-last chunks, then the
  text of its last chunk.
\<close>

definition node_chunks :: "string list \<times> string \<Rightarrow> text_chunk list" where
  "node_chunks n =
     map (\<lambda>s. \<lparr>chunk_text = s, lastInTextNode = False\<rparr>) (fst n)
       @ [\<lparr>chunk_text = snd n, lastInTextNode = True\<rparr>]"

subsection \<open>\<^verbatim>\<open>AttributeRewriter\<close>\<close>

datatype js_error = TypeError | RangeError | NetworkError

definition word_or_dash :: "char \<Rightarrow> bool" where
  "word_or_dash c =
     (c \<in> set ''abcdefghijklmnopqrstuvwxyzABCDEFGHIJKLMNOPQRSTUVWXYZ0123456789_-'')"

text \<open>\<^verbatim>\<open>attribute.match(/^[\w-]+:\/\/.*/)\<close>: a non-empty run of word characters and
  dashes at the start, then \<^verbatim>\<open>://\<close>. The colon is outside the class, so the run is
  the longest one.\<close>

definition has_scheme :: "string \<Rightarrow> bool" where
  "has_scheme a = (takeWhile word_or_dash a \<noteq> [] \<and> prefix ''://'' (dropWhile word_or_dash a))"

text \<open>\<^verbatim>\<open>attribute.match(/^data:.*/)\<close>.\<close>

definition is_data_uri :: "string \<Rightarrow> bool" where
  "is_data_uri a = prefix ''data:'' a"

text \<open>The dot of a regular expression without the \<^verbatim>\<open>s\<close> flag matches no line terminator.\<close>

definition not_line_terminator :: "char \<Rightarrow> bool" where
  "not_line_terminator c = (c \<noteq> CHR 0x0A \<and> c \<noteq> CHR 0x0D)"

text \<open>
  \<^verbatim>\<open>a.replace(/^(https?:\/\/.*)/, replaceValue)\<close>: the match starts at index 0, and
  group 1 is the whole match. The part of the string after the match is kept.
\<close>

definition match_http :: "string \<Rightarrow> string option" where
  "match_http a =
     (if prefix ''http://'' a \<or> prefix ''https://'' a
      then Some (takeWhile not_line_terminator a) else None)"

definition replace_http :: "string \<Rightarrow> string \<Rightarrow> string" where
  "replace_http a replaceValue =
     (case match_http a of
        None \<Rightarrow> a
      | Some m \<Rightarrow> get_substitution m a 0 [m] replaceValue @ drop (length m) a)"

text \<open>
  The method \<^verbatim>\<open>element\<close>. \<open>new_URL a base\<close> stands for the platform's
  \<^verbatim>\<open>new URL(a, base).href\<close>, which throws a TypeError where the reference cannot be
  resolved (\<open>None\<close>). The argument is what \<^verbatim>\<open>getAttribute\<close> returns and the result
  is the value of the attribute after the call; an absent or empty attribute is left as
  it is.
\<close>

definition AttributeRewriter_element ::
  "(string \<Rightarrow> string \<Rightarrow> string option) \<Rightarrow> url \<Rightarrow> url \<Rightarrow> string option \<Rightarrow> js_error + string option" where
  "AttributeRewriter_element new_URL proxy_url upstream_url attr =
     (case attr of
        None \<Rightarrow> Inr None
      | Some attribute \<Rightarrow>
          if attribute = [] then Inr (Some attribute)
          else
            (case (if \<not> has_scheme attribute \<and> \<not> is_data_uri attribute
                   then new_URL attribute (origin upstream_url) else Some attribute) of
               None \<Rightarrow> Inl TypeError
             | Some attribute1 \<Rightarrow>
                 Inr (Some (replace_http attribute1 (origin proxy_url @ ''/$1'')))))"

section \<open>Headers, requests and responses\<close>

text \<open>
  A \<^verbatim>\<open>Headers\<close> object is a map from lower-cased header names to values; its methods
  lower-case the name they are given. Values are stored as given: the platform's
  validation and trimming of header values is outside the model.
\<close>

type_synonym headers = "string \<rightharpoonup> string"

definition lower_char :: "char \<Rightarrow> char" where
  "lower_char c =
     (case map_of (zip ''ABCDEFGHIJKLMNOPQRSTUVWXYZ'' ''abcdefghijklmnopqrstuvwxyz'') c of
        Some d \<Rightarrow> d | None \<Rightarrow> c)"

definition lowercase :: "string \<Rightarrow> string" where
  "lowercase s = map lower_char s"

definition headers_get :: "headers \<Rightarrow> string \<Rightarrow> string option" where
  "headers_get h name = h (lowercase name)"

definition headers_has :: "headers \<Rightarrow> string \<Rightarrow> bool" where
  "headers_has h name = (h (lowercase name) \<noteq> None)"

definition headers_set :: "headers \<Rightarrow> string \<Rightarrow> string \<Rightarrow> headers" where
  "headers_set h name v = h(lowercase name \<mapsto> v)"

definition headers_delete :: "headers \<Rightarrow> string \<Rightarrow> headers" where
  "headers_delete h name = h(lowercase name := None)"

text \<open>\<open>req_url\<close> is the URL object \<^verbatim>\<open>new URL(request.url)\<close>.\<close>

record request =
  req_url :: url
  req_method :: string
  req_headers :: headers

record response =
  status :: nat
  statusText :: string
  res_headers :: headers
  body :: "string option"

text \<open>
  \<^verbatim>\<open>new Response(body, { status, statusText, headers })\<close> as the Fetch standard defines
  it: a status outside 200..599 is a RangeError, a body with a null-body status is a
  TypeError, and a string body brings the content type \<^verbatim>\<open>text/plain;charset=UTF-8\<close>
  when the headers name none. A body is null, a string or a stream.
\<close>

datatype body_init = NullBody | StringBody string | StreamBody string

definition null_body_status :: "nat \<Rightarrow> bool" where
  "null_body_status s = (s \<in> set [101, 103, 204, 205, 304])"

definition new_Response :: "body_init \<Rightarrow> nat \<Rightarrow> string \<Rightarrow> headers \<Rightarrow> js_error + response" where
  "new_Response b st stText hs =
     (if st < 200 \<or> 599 < st then Inl RangeError
      else case b of
        NullBody \<Rightarrow> Inr \<lparr>status = st, statusText = stText, res_headers = hs, body = None\<rparr>
      | StreamBody s \<Rightarrow>
          if null_body_status st then Inl TypeError
          else Inr \<lparr>status = st, statusText = stText, res_headers = hs, body = Some s\<rparr>
      | StringBody s \<Rightarrow>
          if null_body_status st then Inl TypeError
          else Inr \<lparr>status = st, statusText = stText,
                    res_headers = (if headers_has hs ''content-type'' then hs
                                   else headers_set hs ''content-type'' ''text/plain;charset=UTF-8''),
                    body = Some s\<rparr>)"

section \<open>The orchestrator: \<^verbatim>\<open>proxy\<close>\<close>

text \<open>
  The handlers registered on the \<^verbatim>\<open>HTMLRewriter\<close>, each with its selector. A fresh
  \<^verbatim>\<open>TextRewriter\<close> starts with the empty buffer.
\<close>

datatype handler = AttributeRewriter string url url | TextRewriter "string \<Rightarrow> string"

definition html_handlers :: "url \<Rightarrow> url \<Rightarrow> (string \<Rightarrow> string) \<Rightarrow> (string \<times> handler) list" where
  "html_handlers proxyURL upstreamURL rewriteURLs =
     [(''form'', AttributeRewriter ''action'' proxyURL upstreamURL),
      (''img'', AttributeRewriter ''src'' proxyURL upstreamURL),
      (''img'', AttributeRewriter ''srcset'' proxyURL upstreamURL),
      (''link'', AttributeRewriter ''href'' proxyURL upstreamURL),
      (''a'', AttributeRewriter ''href'' proxyURL upstreamURL),
      (''script'', AttributeRewriter ''src'' proxyURL upstreamURL),
      (''script'', TextRewriter rewriteURLs),
      (''style'', TextRewriter rewriteURLs)]"

text \<open>Lines 87 to 95: the copy of the upstream headers and its modifications.\<close>

definition modified_headers :: "request \<Rightarrow> url \<Rightarrow> response \<Rightarrow> headers" where
  "modified_headers request proxyURL upstreamResponse =
     (let h0 = res_headers upstreamResponse;
          h1 = headers_set h0 ''access-control-allow-origin'' ''*'';
          h2 = headers_set h1 ''access-control-allow-credentials'' ''true'';
          h3 = headers_delete h2 ''content-security-policy'';
          h4 = headers_delete h3 ''content-security-policy-report-only'';
          h5 = headers_delete h4 ''clear-site-data'';
          h6 = headers_set h5 ''X-Forwarded-Host'' (origin proxyURL);
          h7 = headers_set h6 ''X-Forwarded-Proto'' (protocol proxyURL)
      in headers_set h7 ''X-Forwarded-For''
           (case headers_get (req_headers request) ''CF-Connecting-IP'' of
              None \<Rightarrow> [] | Some ip \<Rightarrow> ip))"

text \<open>
  Lines 96 to 133, after the upstream response has arrived. \<open>transform\<close> stands for the
  platform's \<^verbatim>\<open>HTMLRewriter\<close>: the body stream that its \<^verbatim>\<open>transform\<close> returns for the
  registered handlers. \<^verbatim>\<open>upstreamResponse.text()\<close> reads the body as a string (the empty
  string for a null body). The second argument of \<^verbatim>\<open>new Response(body_, upstreamResponse)\<close>
  is read as an init dictionary: its status, status text and headers are those of the
  upstream response.
\<close>

definition respond ::
  "((string \<times> handler) list \<Rightarrow> string option \<Rightarrow> string option) \<Rightarrow> request \<Rightarrow> url \<Rightarrow> response
     \<Rightarrow> js_error + response" where
  "respond transform request upstreamURL upstreamResponse =
     (let proxyURL = req_url request;
          responseHeaders0 = modified_headers request proxyURL upstreamResponse;
          contentType = headers_get responseHeaders0 ''content-type'';
          rewriteURLs = rewrite proxyURL upstreamURL;
          responseHeaders =
            (if headers_has responseHeaders0 ''link''
             then headers_set responseHeaders0 ''link''
                    (rewriteURLs (headers_get responseHeaders0 ''link''))
             else responseHeaders0)
      in if (case contentType of None \<Rightarrow> False | Some ct \<Rightarrow> includes_str ct ''text/html'') then
           (let rewriter = html_handlers proxyURL upstreamURL (\<lambda>s. rewriteURLs (Some s));
                isHtml = includes_str
                           (case headers_get responseHeaders ''content-type'' of
                              None \<Rightarrow> ''null'' | Some ct \<Rightarrow> ct)
                           ''text/html'';
                responseBody = (if isHtml then transform rewriter (body upstreamResponse)
                                else body upstreamResponse);
                responseStatus = status upstreamResponse
            in new_Response (case responseBody of None \<Rightarrow> NullBody | Some b \<Rightarrow> StreamBody b)
                 responseStatus [] responseHeaders)
         else if (case contentType of
                    None \<Rightarrow> False
                  | Some ct \<Rightarrow> startsWith ct ''text/''
                               \<or> startsWith ct ''application/x-javascript''
                               \<or> startsWith ct ''application/javascript'') then
           (let body0 = (case body upstreamResponse of None \<Rightarrow> [] | Some b \<Rightarrow> b);
                body1 = rewriteURLs (Some body0)
            in new_Response (StringBody body1) (status upstreamResponse)
                 (statusText upstreamResponse) (res_headers upstreamResponse))
         else Inr upstreamResponse)"

text \<open>The value of \<^verbatim>\<open>responseHeaders\<close> after line 101, as \<^const>\<open>respond\<close> computes it.\<close>

definition final_headers :: "request \<Rightarrow> url \<Rightarrow> response \<Rightarrow> headers" where
  "final_headers request upstreamURL upstreamResponse =
     (let h = modified_headers request (req_url request) upstreamResponse
      in if headers_has h ''link''
         then headers_set h ''link'' (rewrite (req_url request) upstreamURL (headers_get h ''link''))
         else h)"

text \<open>
  \<^verbatim>\<open>proxy(request, upstreamURL)\<close>. \<open>global_fetch\<close> stands for the platform's
  \<^verbatim>\<open>fetch\<close>: the upstream's response to a URL, method and headers, or \<open>None\<close> when the
  request fails on the network and the promise is rejected. The result is the list of
  upstream requests made, and the response or the error the promise settles with.
\<close>

type_synonym fetch_call = "string \<times> string \<times> headers"

definition proxy ::
  "(string \<Rightarrow> string \<Rightarrow> headers \<Rightarrow> response option)
     \<Rightarrow> ((string \<times> handler) list \<Rightarrow> string option \<Rightarrow> string option)
     \<Rightarrow> request \<Rightarrow> url \<Rightarrow> fetch_call list \<times> (js_error + response)" where
  "proxy global_fetch transform request upstreamURL =
     (let proxyURL = req_url request;
          proxyHeaders0 = headers_set (req_headers request) ''Host'' (origin upstreamURL);
          proxyHeaders = headers_set proxyHeaders0 ''Referer'' (origin proxyURL);
          call = (href upstreamURL, req_method request, proxyHeaders)
      in case global_fetch (href upstreamURL) (req_method request) proxyHeaders of
           None \<Rightarrow> ([call], Inl NetworkError)
         | Some upstreamResponse \<Rightarrow>
             ([call], respond transform request upstreamURL upstreamResponse))"

section \<open>The entry point: \<^verbatim>\<open>fetch\<close>\<close>

text \<open>
  \<^verbatim>\<open>path.match(/\/(https?:)\/+(.*)/)\<close>: the leftmost index at which the pattern
  matches, with groups 1 and 2. The slashes after the scheme are all taken by
  \<^verbatim>\<open>\/+\<close>, since what follows it matches anything.
\<close>

definition match_here :: "string \<Rightarrow> (string \<times> string) option" where
  "match_here s =
     (if prefix ''/https:/'' s then
        Some (''https:'', takeWhile not_line_terminator (dropWhile (\<lambda>c. c = CHR ''/'') (drop 7 s)))
      else if prefix ''/http:/'' s then
        Some (''http:'', takeWhile not_line_terminator (dropWhile (\<lambda>c. c = CHR ''/'') (drop 6 s)))
      else None)"

fun match_upstream :: "string \<Rightarrow> (string \<times> string) option" where
  "match_upstream [] = None"
| "match_upstream (c # cs) =
     (case match_here (c # cs) of Some m \<Rightarrow> Some m | None \<Rightarrow> match_upstream cs)"

text \<open>Lines 155 and 156: the upstream string taken from the path.\<close>

definition upstream_of_path :: "string \<Rightarrow> string" where
  "upstream_of_path path =
     (case match_upstream path of Some (m1, m2) \<Rightarrow> m1 @ ''//'' @ m2 | None \<Rightarrow> [])"

text \<open>
  The handler. \<open>new_URL\<close> stands for the platform's \<^verbatim>\<open>new URL(upstream)\<close>, which
  throws where the string is no absolute URL (\<open>None\<close>); \<open>set_protocol\<close> for the
  setter \<^verbatim>\<open>proxyURL.protocol = ...\<close>. The \<^verbatim>\<open>try\<close> block returns the promise of
  \<^verbatim>\<open>proxy\<close> without awaiting it, so the \<^verbatim>\<open>catch\<close> clause sees the exception of
  \<^verbatim>\<open>new URL\<close> only.
\<close>

definition fetch ::
  "(string \<Rightarrow> url option) \<Rightarrow> (url \<Rightarrow> string \<Rightarrow> url)
     \<Rightarrow> (string \<Rightarrow> string \<Rightarrow> headers \<Rightarrow> response option)
     \<Rightarrow> ((string \<times> handler) list \<Rightarrow> string option \<Rightarrow> string option)
     \<Rightarrow> request \<Rightarrow> fetch_call list \<times> (js_error + response)" where
  "fetch new_URL set_protocol global_fetch transform request =
     (let proxyURL = req_url request;
          path = drop (length (origin proxyURL)) (href proxyURL)
      in if protocol proxyURL = ''http:'' then
           ([], new_Response (StringBody ''http not allowed'') 301 []
                  [''strict-transport-security'' \<mapsto> ''max-age=31536000; includeSubDomains; preload'',
                   ''location'' \<mapsto> href (set_protocol proxyURL ''https:'')])
         else
           (case new_URL (upstream_of_path path) of
              None \<Rightarrow> ([], new_Response (StringBody ''What is that URL?'') 400 [] Map.empty)
            | Some upstreamURL \<Rightarrow> proxy global_fetch transform request upstreamURL))"

section \<open>The rule engine as the specification words it\<close>

text \<open>
  The specification describes the rule engine without reference to the platform: each
  rule is a global, literal replace-all, and the rules run in a fixed order, each over the
  output of the one before. The definitions of this section follow those words; the
  theorems below compare them with \<^const>\<open>rewrite\<close>.

  A literal global replace-all: scanning from the left, every occurrence of the pattern
  that does not overlap an earlier one is replaced by the replacement, character for
  character. (For the empty pattern it agrees with the platform: the replacement goes
  before every character and at the end.)
\<close>

fun replace_literal :: "string \<Rightarrow> string \<Rightarrow> string \<Rightarrow> string" where
  "replace_literal pat rep [] = (if pat = [] then rep else [])"
| "replace_literal pat rep (c # rest) =
     (if pat = [] then rep @ c # replace_literal pat rep rest
      else if prefix pat (c # rest) then rep @ replace_literal pat rep (drop (length pat - 1) rest)
      else c # replace_literal pat rep rest)"

text \<open>A string with every \<^verbatim>\<open>/\<close> escaped as \<^verbatim>\<open>\/\<close>.\<close>

definition escape_slashes :: "string \<Rightarrow> string" where
  "escape_slashes s = concat (map (\<lambda>c. if c = CHR ''/'' then [CHR 0x5C, CHR ''/''] else [c]) s)"

text \<open>\<^verbatim>\<open>host[:port]\<close>.\<close>

definition host_opt_port :: "url \<Rightarrow> string" where
  "host_opt_port u = hostname u @ (if port u = [] then [] else '':'' @ port u)"

text \<open>
  Rule 1 is one replace-all over the text: wherever one of the delimiters \<^verbatim>\<open>'\<close>,
  \<^verbatim>\<open>"\<close> and \<^verbatim>\<open><\<close> is followed by a slash, the public origin is inserted between
  the two, once for every such occurrence in the text. \<open>anchor_set Q pub\<close> is this
  pass for the delimiters in \<open>Q\<close>; the slash of a marker is no delimiter, so the
  occurrences never overlap.
\<close>

fun anchor_set :: "char set \<Rightarrow> string \<Rightarrow> string \<Rightarrow> string" where
  "anchor_set Q pub (c # d # rest) =
     (if c \<in> Q \<and> d = CHR ''/''
      then c # pub @ anchor_set Q pub (d # rest)
      else c # anchor_set Q pub (d # rest))"
| "anchor_set Q pub t = t"

definition anchor_relative :: "string \<Rightarrow> string \<Rightarrow> string" where
  "anchor_relative pub t = anchor_set {CHR 0x27, CHR 0x22, CHR ''<''} pub t"

definition rule1 :: "url \<Rightarrow> string \<Rightarrow> string" where
  "rule1 publicURL t = anchor_relative (origin publicURL) t"

text \<open>Rules 2 to 5 are one literal replace-all each.\<close>

definition rule2 :: "url \<Rightarrow> url \<Rightarrow> string \<Rightarrow> string" where
  "rule2 upstreamURL publicURL t =
     replace_literal (escape_slashes (origin upstreamURL))
       (escape_slashes (origin publicURL) @ escape_slashes (pathname publicURL)) t"

definition rule3 :: "url \<Rightarrow> url \<Rightarrow> string \<Rightarrow> string" where
  "rule3 upstreamURL publicURL t = replace_literal (origin upstreamURL) (origin publicURL) t"

definition rule4 :: "url \<Rightarrow> url \<Rightarrow> string \<Rightarrow> string" where
  "rule4 upstreamURL publicURL t =
     replace_literal (''//'' @ host_opt_port upstreamURL @ pathname upstreamURL)
       (''//'' @ host_opt_port publicURL @ pathname publicURL @ ''/'') t"

definition rule5 :: "url \<Rightarrow> url \<Rightarrow> string \<Rightarrow> string" where
  "rule5 upstreamURL publicURL t =
     replace_literal (hostname upstreamURL) (host_opt_port publicURL) t"

definition rule_engine :: "url \<Rightarrow> url \<Rightarrow> string \<Rightarrow> string" where
  "rule_engine upstreamURL publicURL t =
     rule5 upstreamURL publicURL (rule4 upstreamURL publicURL (rule3 upstreamURL publicURL
       (rule2 upstreamURL publicURL (rule1 publicURL t))))"

text \<open>
  A replacement string that the platform inserts as it stands: it holds none of the
  two-character patterns \<^verbatim>\<open>$$\<close>, \<^verbatim>\<open>$&\<close>, \<^verbatim>\<open>$`\<close>, \<^verbatim>\<open>$'\<close>, which
  \<^verbatim>\<open>replaceAll\<close> expands when the pattern is a string.
\<close>

fun substitution_free :: "string \<Rightarrow> bool" where
  "substitution_free (c # d # t) =
     (\<not> (c = CHR ''$'' \<and> d \<in> set [CHR ''$'', CHR ''&'', CHR 0x60, CHR 0x27])
      \<and> substitution_free (d # t))"
| "substitution_free t = True"

section \<open>The scenario of the specification\<close>

text \<open>
  The URL objects of the specification's end-to-end scenarios: the upstream
  \<^verbatim>\<open>https://example.com\<close>, the proxy \<^verbatim>\<open>https://proxy.test\<close>, and the URL of a request
  that the proxy receives for the upstream's root. \<open>dollar_public\<close> is a public URL
  whose path is \<^verbatim>\<open>/$$\<close>.
\<close>

definition example_upstream :: url where
  "example_upstream =
     \<lparr>href = ''https://example.com/'', origin = ''https://example.com'', protocol = ''https:'',
      hostname = ''example.com'', port = [], pathname = ''/''\<rparr>"

definition example_proxy :: url where
  "example_proxy =
     \<lparr>href = ''https://proxy.test/'', origin = ''https://proxy.test'', protocol = ''https:'',
      hostname = ''proxy.test'', port = [], pathname = ''/''\<rparr>"

definition example_request_url :: url where
  "example_request_url =
     \<lparr>href = ''https://proxy.test/https://example.com/'', origin = ''https://proxy.test'',
      protocol = ''https:'', hostname = ''proxy.test'', port = [],
      pathname = ''/https://example.com/''\<rparr>"

definition dollar_public :: url where
  "dollar_public =
     \<lparr>href = ''https://proxy.test/$$'', origin = ''https://proxy.test'', protocol = ''https:'',
      hostname = ''proxy.test'', port = [], pathname = ''/$$''\<rparr>"

text \<open>
  Two more URL objects: a public URL whose host name ends in a double quote, and a
  request URL of a proxy whose host name holds \<^verbatim>\<open>$1\<close>. The URL standard admits both
  characters in a host name.
\<close>

definition quote_public :: url where
  "quote_public =
     \<lparr>href = ''https://ab'' @ [CHR 0x22] @ ''/'', origin = ''https://ab'' @ [CHR 0x22],
      protocol = ''https:'', hostname = ''ab'' @ [CHR 0x22], port = [], pathname = ''/''\<rparr>"

definition dollar_proxy :: url where
  "dollar_proxy =
     \<lparr>href = ''https://p$1.test/https://example.com/'', origin = ''https://p$1.test'',
      protocol = ''https:'', hostname = ''p$1.test'', port = [],
      pathname = ''/https://example.com/''\<rparr>"

text \<open>
  Scenario 3: the inline script \<^verbatim>\<open>fetch('/api')\<close> delivered as the two chunks
  \<^verbatim>\<open>fetch('/\<close> and \<^verbatim>\<open>api')\<close>.
\<close>

definition example_script_chunks :: "text_chunk list" where
  "example_script_chunks =
     [\<lparr>chunk_text = ''fetch('' @ [CHR 0x27] @ ''/'', lastInTextNode = False\<rparr>,
      \<lparr>chunk_text = ''api'' @ [CHR 0x27] @ '')'', lastInTextNode = True\<rparr>]"

text \<open>
  A request for the upstream's root and three upstream responses: an HTML page with the
  \<^verbatim>\<open>link\<close> header of scenario 4, a style sheet that carries a content security
  policy, and a body with no content type.
\<close>

definition example_request :: request where
  "example_request = \<lparr>req_url = example_request_url, req_method = ''GET'', req_headers = Map.empty\<rparr>"

definition example_html_response :: response where
  "example_html_response =
     \<lparr>status = 200, statusText = ''OK'',
      res_headers = [''content-type'' \<mapsto> ''text/html'', ''link'' \<mapsto> ''</style.css>; rel=preload''],
      body = Some ''<p>hello</p>''\<rparr>"

definition example_css_response :: response where
  "example_css_response =
     \<lparr>status = 200, statusText = ''OK'',
      res_headers = [''content-type'' \<mapsto> ''text/css'', ''content-security-policy'' \<mapsto> ''default-src *''],
      body = Some ''body { color: red }''\<rparr>"

definition example_png_response :: response where
  "example_png_response =
     \<lparr>status = 200, statusText = ''OK'',
      res_headers = [''content-length'' \<mapsto> ''4''],
      body = Some ''.PNG''\<rparr>"

text \<open>
  Stand-ins for the platform in closed examples: a parser that knows the upstream's root
  URL and rejects every other string, the empty string among them, and a protocol setter
  for URLs without a port. The two requests are for a path that names no upstream, over
  \<^verbatim>\<open>https:\<close> and over \<^verbatim>\<open>http:\<close>.
\<close>

definition example_new_URL :: "string \<Rightarrow> url option" where
  "example_new_URL s = (if s = ''https://example.com/'' then Some example_upstream else None)"

definition example_set_protocol :: "url \<Rightarrow> string \<Rightarrow> url" where
  "example_set_protocol u p =
     u\<lparr>protocol := p, href := p @ drop (length (protocol u)) (href u),
       origin := p @ drop (length (protocol u)) (origin u)\<rparr>"

definition example_bad_request :: request where
  "example_bad_request =
     \<lparr>req_url = \<lparr>href = ''https://proxy.test/nothing'', origin = ''https://proxy.test'',
                 protocol = ''https:'', hostname = ''proxy.test'', port = [],
                 pathname = ''/nothing''\<rparr>,
      req_method = ''GET'', req_headers = Map.empty\<rparr>"

definition example_http_request :: request where
  "example_http_request =
     \<lparr>req_url = \<lparr>href = ''http://proxy.test/nothing'', origin = ''http://proxy.test'',
                 protocol = ''http:'', hostname = ''proxy.test'', port = [],
                 pathname = ''/nothing''\<rparr>,
      req_method = ''GET'', req_headers = Map.empty\<rparr>"

section \<open>Replacement templates\<close>

lemma next_ref_plain: "c \<noteq> CHR ''$'' \<Longrightarrow> next_ref m s p caps (c # t) = ([c], 1)"
  by (simp add: next_ref_def)

lemma get_substitution_no_dollar:
  "CHR ''$'' \<notin> set t \<Longrightarrow> get_substitution m s p caps t = t"
  by (induction t) (auto simp: next_ref_plain)

lemma substitution_free_tl: "substitution_free (c # u) \<Longrightarrow> substitution_free u"
  by (cases u) simp_all

lemma substitution_free_drop: "substitution_free t \<Longrightarrow> substitution_free (drop k t)"
proof (induction k arbitrary: t)
  case 0
  then show ?case by simp
next
  case (Suc k)
  show ?case
  proof (cases t)
    case Nil
    then show ?thesis by simp
  next
    case (Cons c u)
    with Suc.prems have "substitution_free u" by (simp add: substitution_free_tl)
    with Suc.IH Cons show ?thesis by simp
  qed
qed

text \<open>With no capture groups, a reference of a pattern-free template is literal.\<close>

lemma next_ref_literal:
  assumes "substitution_free (c # t)"
  shows "\<exists>n. 1 \<le> n \<and> next_ref m s p [] (c # t) = (take n (c # t), n)"
proof (cases "c = CHR ''$''")
  case False
  then have "next_ref m s p [] (c # t) = (take 1 (c # t), 1)"
    by (simp add: next_ref_def)
  then show ?thesis by blast
next
  case True
  show ?thesis
  proof (cases t)
    case Nil
    with True have "next_ref m s p [] (c # t) = (take 1 (c # t), 1)"
      by (simp add: next_ref_def)
    then show ?thesis by blast
  next
    case (Cons d u)
    with True assms have d: "d \<noteq> CHR ''$''" "d \<noteq> CHR ''&''" "d \<noteq> CHR 0x60" "d \<noteq> CHR 0x27"
      by simp_all
    show ?thesis
    proof (cases "is_digit d")
      case dig: True
      have "next_ref m s p [] (c # t) = (take 2 (c # t), 2)
            \<or> next_ref m s p [] (c # t) = (take 3 (c # t), 3)"
        using True Cons d dig by (auto simp: next_ref_def Let_def)
      then show ?thesis by force
    next
      case False
      have "next_ref m s p [] (c # t) = (take 2 (c # t), 2)
            \<or> next_ref m s p [] (c # t) = (take 1 (c # t), 1)"
        using True Cons d False by (auto simp: next_ref_def)
      then show ?thesis by force
    qed
  qed
qed

lemma get_substitution_free:
  "substitution_free t \<Longrightarrow> get_substitution m s p [] t = t"
proof (induction t rule: length_induct)
  case (1 t)
  show ?case
  proof (cases t)
    case Nil
    then show ?thesis by simp
  next
    case (Cons c u)
    with "1.prems" obtain n where n: "1 \<le> n" "next_ref m s p [] (c # u) = (take n (c # u), n)"
      using next_ref_literal by blast
    have "substitution_free u" using "1.prems" Cons by (simp add: substitution_free_tl)
    then have "substitution_free (drop (n - 1) u)" by (rule substitution_free_drop)
    moreover have "length (drop (n - 1) u) < length t" using Cons by simp
    ultimately have ih: "get_substitution m s p [] (drop (n - 1) u) = drop (n - 1) u"
      using "1.IH" by blast
    have "take n (c # u) @ drop (n - 1) u = c # u"
      using n(1) by (cases n) simp_all
    with n ih Cons show ?thesis by simp
  qed
qed

lemma substitution_free_appendD:
  "substitution_free (a @ b) \<Longrightarrow> substitution_free a \<and> substitution_free b"
proof (induction a rule: substitution_free.induct)
  fix c d t
  assume "substitution_free ((d # t) @ b) \<Longrightarrow> substitution_free (d # t) \<and> substitution_free b"
    and "substitution_free ((c # d # t) @ b)"
  then show "substitution_free (c # d # t) \<and> substitution_free b" by simp
next
  assume "substitution_free ([] @ b)"
  then show "substitution_free [] \<and> substitution_free b" by simp
next
  fix v
  assume "substitution_free ([v] @ b)"
  then show "substitution_free [v] \<and> substitution_free b" by (cases b) simp_all
qed

lemma substitution_free_Cons:
  "c \<noteq> CHR ''$'' \<Longrightarrow> substitution_free t \<Longrightarrow> substitution_free (c # t)"
  by (cases t) simp_all

lemma substitution_free_snoc_slash:
  "substitution_free t \<Longrightarrow> substitution_free (t @ ''/'')"
  by (induction t rule: substitution_free.induct) simp_all

lemma escape_slashes_append: "escape_slashes (a @ b) = escape_slashes a @ escape_slashes b"
  by (simp add: escape_slashes_def)

lemma substitution_free_escape:
  "substitution_free t \<Longrightarrow> substitution_free (escape_slashes t)"
  by (induction t rule: substitution_free.induct) (auto simp: escape_slashes_def)

section \<open>\<^verbatim>\<open>replaceAll\<close> and the literal replace-all\<close>

lemma replace_scan_literal:
  "substitution_free rep \<Longrightarrow> replace_scan str pat rep p rest = replace_literal pat rep rest"
  by (induction pat rep rest arbitrary: p rule: replace_literal.induct)
     (simp_all add: get_substitution_free)

lemma replaceAll_literal:
  "substitution_free rep \<Longrightarrow> replaceAll str pat rep = replace_literal pat rep str"
  by (simp add: replaceAll_def replace_scan_literal)

lemma replace_scan_absent:
  "pat \<noteq> [] \<Longrightarrow> \<not> sublist pat rest \<Longrightarrow> replace_scan str pat rep p rest = rest"
  by (induction rest arbitrary: p) (auto simp: sublist_Cons_right)

lemma replaceAll_absent:
  "pat \<noteq> [] \<Longrightarrow> \<not> sublist pat str \<Longrightarrow> replaceAll str pat rep = str"
  by (simp add: replaceAll_def replace_scan_absent)

lemma replace_literal_slash:
  "replace_literal ''/'' [CHR 0x5C, CHR ''/''] s = escape_slashes s"
  by (induction s) (auto simp: escape_slashes_def)

lemma replaceAll_slash: "replaceAll s ''/'' [CHR 0x5C, CHR ''/''] = escape_slashes s"
  by (simp add: replaceAll_literal replace_literal_slash)

lemma hostPort_eq: "hostPort u = host_opt_port u"
  by (simp add: hostPort_def host_opt_port_def)

section \<open>The rule engine\<close>

text \<open>
  Claim C7. For every origin pair, the rule engine applied to an absent (null) text
  returns the empty string. The embedding of \<^verbatim>\<open>rewrite\<close> is a total function to
  strings, so no error is raised on any input.
\<close>

theorem rewrite_null_is_empty: "rewrite originURL publicURL None = []"
  by (simp add: rewrite_def)

subsection \<open>Rule 1 and the three passes of the source\<close>

text \<open>
  The source handles the three markers of rule 1 in three successive \<^verbatim>\<open>replaceAll\<close>
  calls. A later pass reads what an earlier one inserted, so the three passes are the
  single pass of rule 1 only when the public origin itself brings no \<^verbatim>\<open>"\<close> and no
  \<^verbatim>\<open><\<close> into the text.
\<close>

lemma anchor_set_skip: "c \<notin> Q \<Longrightarrow> anchor_set Q pub (c # t) = c # anchor_set Q pub t"
  by (cases t) simp_all

lemma anchor_set_prefix:
  "Q \<inter> set p = {} \<Longrightarrow> anchor_set Q pub (p @ t) = p @ anchor_set Q pub t"
  by (induction p) (simp_all add: anchor_set_skip)

lemma anchor_set_head: "\<exists>x. anchor_set Q pub (d # t) = d # x"
  by (cases t) simp_all

lemma anchor_set_slash:
  "CHR ''/'' \<notin> Q \<Longrightarrow> anchor_set Q pub (CHR ''/'' # t) = CHR ''/'' # anchor_set Q pub t"
  by (rule anchor_set_skip)

lemma anchor_set_compose:
  "CHR ''/'' \<notin> Q1 \<Longrightarrow> CHR ''/'' \<notin> Q2 \<Longrightarrow> Q2 \<inter> set pub = {} \<Longrightarrow> Q1 \<inter> Q2 = {} \<Longrightarrow>
   anchor_set Q2 pub (anchor_set Q1 pub t) = anchor_set (Q1 \<union> Q2) pub t"
proof (induction Q1 pub t rule: anchor_set.induct)
  case (1 Q pub c d rest)
  obtain x where x: "anchor_set Q pub (d # rest) = d # x"
    using anchor_set_head by blast
  have ih: "anchor_set Q2 pub (anchor_set Q pub (d # rest)) = anchor_set (Q \<union> Q2) pub (d # rest)"
    using 1 by (cases "c \<in> Q \<and> d = CHR ''/''") simp_all
  show ?case
  proof (cases "c \<in> Q \<and> d = CHR ''/''")
    case True
    then have "c \<notin> Q2" using "1.prems" by auto
    with True "1.prems" ih show ?thesis
      by (simp add: anchor_set_skip anchor_set_prefix)
  next
    case False
    with x ih show ?thesis by auto
  qed
qed simp_all

lemma replace_literal_anchor:
  "q \<noteq> CHR ''/'' \<Longrightarrow> replace_literal [q, CHR ''/''] (q # pub @ ''/'') t = anchor_set {q} pub t"
  by (induction "{q}" pub t rule: anchor_set.induct) (auto simp: anchor_set_skip)

lemma three_passes_single:
  assumes "CHR 0x22 \<notin> set pub" and "CHR ''<'' \<notin> set pub"
  shows "replace_literal ''</'' (''<'' @ pub @ ''/'')
           (replace_literal [CHR 0x22, CHR ''/''] ([CHR 0x22] @ pub @ ''/'')
              (replace_literal [CHR 0x27, CHR ''/''] ([CHR 0x27] @ pub @ ''/'') t))
         = anchor_relative pub t"
proof -
  have a: "anchor_set {CHR 0x22} pub (anchor_set {CHR 0x27} pub t)
           = anchor_set ({CHR 0x27} \<union> {CHR 0x22}) pub t"
    using assms(1) by (intro anchor_set_compose) simp_all
  have b: "anchor_set {CHR ''<''} pub (anchor_set ({CHR 0x27} \<union> {CHR 0x22}) pub t)
           = anchor_set (({CHR 0x27} \<union> {CHR 0x22}) \<union> {CHR ''<''}) pub t"
    using assms(2) by (intro anchor_set_compose) simp_all
  have s: "({CHR 0x27} \<union> {CHR 0x22}) \<union> {CHR ''<''} = {CHR 0x27, CHR 0x22, CHR ''<''}"
    by auto
  have r1: "replace_literal [CHR 0x27, CHR ''/''] ([CHR 0x27] @ p @ ''/'') u
            = anchor_set {CHR 0x27} p u" for p u
    using replace_literal_anchor [of "CHR 0x27"] by simp
  have r2: "replace_literal [CHR 0x22, CHR ''/''] ([CHR 0x22] @ p @ ''/'') u
            = anchor_set {CHR 0x22} p u" for p u
    using replace_literal_anchor [of "CHR 0x22"] by simp
  have r3: "replace_literal ''</'' (''<'' @ p @ ''/'') u = anchor_set {CHR ''<''} p u" for p u
    using replace_literal_anchor [of "CHR ''<''"] by simp
  show ?thesis
    by (simp only: anchor_relative_def r1 r2 r3 a b s)
qed

subsection \<open>Where the source is the five rules\<close>

text \<open>
  When the replacement strings built from the public URL hold no substitution pattern
  and the public origin holds no \<^verbatim>\<open>"\<close> and no \<^verbatim>\<open><\<close>, \<^verbatim>\<open>rewrite\<close> is, on every text,
  the five rules of the specification, each applied to the output of the one before, in
  the order 1 to 5.
\<close>

lemma rewrite_five_rules:
  assumes op: "substitution_free (origin publicURL @ pathname publicURL)"
    and hp: "substitution_free (host_opt_port publicURL @ pathname publicURL)"
    and q: "CHR 0x22 \<notin> set (origin publicURL)" "CHR ''<'' \<notin> set (origin publicURL)"
  shows "rewrite upstreamURL publicURL (Some t) = rule_engine upstreamURL publicURL t"
proof -
  have o: "substitution_free (origin publicURL)"
    using op substitution_free_appendD by blast
  have h: "substitution_free (host_opt_port publicURL)"
    using hp substitution_free_appendD by blast
  have r1: "substitution_free ([CHR 0x27] @ origin publicURL @ ''/'')"
    and r2: "substitution_free ([CHR 0x22] @ origin publicURL @ ''/'')"
    and r3: "substitution_free (''<'' @ origin publicURL @ ''/'')"
    using o by (simp_all add: substitution_free_Cons substitution_free_snoc_slash)
  have r4: "substitution_free
              (escape_slashes (origin publicURL) @ escape_slashes (pathname publicURL))"
    using op by (simp add: substitution_free_escape flip: escape_slashes_append)
  have "substitution_free ((host_opt_port publicURL @ pathname publicURL) @ ''/'')"
    using hp by (rule substitution_free_snoc_slash)
  then have r6: "substitution_free
                   (''//'' @ host_opt_port publicURL @ pathname publicURL @ ''/'')"
    by (simp add: substitution_free_Cons)
  show ?thesis
    unfolding rewrite_def rule_engine_def rule1_def rule2_def rule3_def rule4_def rule5_def
    by (simp only: option.case Let_def hostPort_eq replaceAll_slash
          replaceAll_literal [OF r1] replaceAll_literal [OF r2] replaceAll_literal [OF r3]
          replaceAll_literal [OF r4] replaceAll_literal [OF o] replaceAll_literal [OF r6]
          replaceAll_literal [OF h] three_passes_single [OF q])
qed

text \<open>The scenario's URLs meet the four conditions.\<close>

lemma rewrite_five_rules_scenario:
  "rewrite example_upstream example_proxy (Some t) = rule_engine example_upstream example_proxy t"
proof -
  have a: "substitution_free (origin example_proxy @ pathname example_proxy)"
    by (simp add: example_proxy_def)
  have b: "substitution_free (host_opt_port example_proxy @ pathname example_proxy)"
    by (simp add: example_proxy_def host_opt_port_def)
  have c: "CHR 0x22 \<notin> set (origin example_proxy)" "CHR ''<'' \<notin> set (origin example_proxy)"
    by (simp_all add: example_proxy_def)
  show ?thesis by (rule rewrite_five_rules [OF a b c])
qed

subsection \<open>Where the source is not the five rules\<close>

text \<open>
  Claim C1, on the code. The claim is for every origin pair and every text, and rule 4
  replaces the protocol-relative upstream reference by \<^verbatim>\<open>//\<close>, the public host, the
  public path and a slash. With the public path \<^verbatim>\<open>/$$\<close> the five rules turn the text
  \<^verbatim>\<open>//example.com/\<close> into \<^verbatim>\<open>//proxy.test/$$/\<close>. The source passes the replacement
  string to \<^verbatim>\<open>replaceAll\<close> unescaped, which reads \<^verbatim>\<open>$$\<close> in it as one dollar sign:
  \<^verbatim>\<open>rewrite\<close> returns \<^verbatim>\<open>//proxy.test/$/\<close>.
\<close>

theorem rewrite_dollar_path_example:
  "rewrite example_upstream dollar_public (Some ''//example.com/'') = ''//proxy.test/$/''
   \<and> rule_engine example_upstream dollar_public ''//example.com/'' = ''//proxy.test/$$/''
   \<and> rewrite example_upstream dollar_public (Some ''//example.com/'')
       \<noteq> rule_engine example_upstream dollar_public ''//example.com/''"
  by (simp add: rewrite_def replaceAll_def next_ref_def is_digit_def digit_val_def hostPort_def
        rule_engine_def rule1_def rule2_def rule3_def rule4_def rule5_def escape_slashes_def
        anchor_relative_def host_opt_port_def example_upstream_def dollar_public_def)

text \<open>
  The three passes of the source differ from rule 1 as well. With a public origin that
  ends in a double quote, the pass for \<^verbatim>\<open>"/\<close> finds a marker in what the pass for
  \<^verbatim>\<open>'/\<close> inserted, and the one occurrence of \<^verbatim>\<open>'/\<close> in the text \<^verbatim>\<open>'/x\<close> gets the
  origin twice.
\<close>

lemma rewrite_quote_origin_example:
  "rewrite example_upstream quote_public (Some ([CHR 0x27] @ ''/x''))
     = [CHR 0x27] @ ''https://ab'' @ [CHR 0x22] @ ''https://ab'' @ [CHR 0x22] @ ''/x''
   \<and> rule_engine example_upstream quote_public ([CHR 0x27] @ ''/x'')
     = [CHR 0x27] @ ''https://ab'' @ [CHR 0x22] @ ''/x''"
  by (simp add: rewrite_def replaceAll_def next_ref_def is_digit_def digit_val_def hostPort_def
        rule_engine_def rule1_def rule2_def rule3_def rule4_def rule5_def escape_slashes_def
        anchor_relative_def host_opt_port_def example_upstream_def quote_public_def)

section \<open>The text node rewriter\<close>

lemma TextRewriter_run_unflagged:
  "\<forall>t \<in> set ts. \<not> lastInTextNode t \<Longrightarrow>
   TextRewriter_run rewriter buffer (ts @ us) =
     (case TextRewriter_run rewriter (buffer @ concat (map chunk_text ts)) us of
        (buffer1, as) \<Rightarrow> (buffer1, replicate (length ts) Remove @ as))"
  by (induction ts arbitrary: buffer) (simp_all add: TextRewriter_text_def split: prod.splits)

lemma TextRewriter_run_append:
  "TextRewriter_run rewriter buffer (ts @ us) =
     (case TextRewriter_run rewriter buffer ts of
        (buffer1, as) \<Rightarrow>
          (case TextRewriter_run rewriter buffer1 us of
             (buffer2, bs) \<Rightarrow> (buffer2, as @ bs)))"
  by (induction ts arbitrary: buffer) (simp_all split: prod.splits)

lemma TextRewriter_run_node:
  "TextRewriter_run rewriter buffer (node_chunks n) =
     ([], replicate (length (fst n)) Remove
            @ [Replace (rewriter (buffer @ concat (fst n) @ snd n))])"
proof -
  have "\<forall>t \<in> set (map (\<lambda>s. \<lparr>chunk_text = s, lastInTextNode = False\<rparr>) (fst n)).
          \<not> lastInTextNode t"
    by simp
  then show ?thesis
    unfolding node_chunks_def
    by (simp add: TextRewriter_run_unflagged TextRewriter_text_def comp_def)
qed

text \<open>
  Claim C2. A logical text node arrives as a non-empty sequence of chunks of which only
  the last is flagged \<^verbatim>\<open>lastInTextNode\<close>. A rewriter with an empty buffer removes every
  chunk but the last and replaces the last by the rewrite function applied to the
  concatenation of all the chunks' texts in arrival order: one write for the node. Its
  buffer is empty again afterwards.
\<close>

theorem TextRewriter_one_write_per_node:
  assumes "ts \<noteq> []"
    and "\<forall>t \<in> set (butlast ts). \<not> lastInTextNode t"
    and "lastInTextNode (last ts)"
  shows "TextRewriter_run rewriter [] ts =
           ([], replicate (length ts - 1) Remove
                  @ [Replace (rewriter (concat (map chunk_text ts)))])"
proof -
  have ts: "ts = butlast ts @ [last ts]" using assms(1) by simp
  have "TextRewriter_run rewriter [] (butlast ts @ [last ts]) =
          ([], replicate (length (butlast ts)) Remove
                 @ [Replace (rewriter (concat (map chunk_text (butlast ts))
                                        @ chunk_text (last ts)))])"
    using assms(2,3) by (simp add: TextRewriter_run_unflagged TextRewriter_text_def)
  moreover have "concat (map chunk_text (butlast ts)) @ chunk_text (last ts)
                 = concat (map chunk_text (butlast ts @ [last ts]))"
    by simp
  ultimately show ?thesis using ts by (metis length_butlast)
qed

text \<open>
  The theorem at scenario 3, with the rule engine of the scenario as the rewrite
  function: the first chunk is removed and the flush writes
  \<^verbatim>\<open>fetch('https://proxy.test/api')\<close>.
\<close>

theorem TextRewriter_one_write_per_node_witness:
  "example_script_chunks \<noteq> []
   \<and> list_all (\<lambda>t. \<not> lastInTextNode t) (butlast example_script_chunks)
   \<and> lastInTextNode (last example_script_chunks)
   \<and> TextRewriter_run (\<lambda>s. rewrite example_upstream example_proxy (Some s)) []
        example_script_chunks
      = ([], [Remove,
              Replace (''fetch('' @ [CHR 0x27] @ ''https://proxy.test/api'' @ [CHR 0x27] @ '')'')])"
proof -
  have a: "example_script_chunks \<noteq> []"
    and b: "\<forall>t \<in> set (butlast example_script_chunks). \<not> lastInTextNode t"
    and c: "lastInTextNode (last example_script_chunks)"
    by (simp_all add: example_script_chunks_def)
  have v: "rewrite example_upstream example_proxy
             (Some (concat (map chunk_text example_script_chunks)))
          = ''fetch('' @ [CHR 0x27] @ ''https://proxy.test/api'' @ [CHR 0x27] @ '')''"
    by (simp add: example_script_chunks_def rewrite_def replaceAll_def next_ref_def is_digit_def
          digit_val_def hostPort_def example_upstream_def example_proxy_def)
  have n: "replicate (length example_script_chunks - 1) Remove = [Remove]"
    by (simp add: example_script_chunks_def)
  show ?thesis
    using a b c
      TextRewriter_one_write_per_node [OF a b c,
        of "\<lambda>s. rewrite example_upstream example_proxy (Some s)"]
    by (simp only: v n list_all_iff) simp
qed

text \<open>
  Claim C8. Every last-chunk event leaves the buffer empty, whatever it held before. So
  when one instance, starting empty, handles any sequence of complete logical nodes, the
  buffer is empty at the end and the write for each node is the rewrite function applied
  to the text of that node's own chunks only: nothing of an earlier node is in it.
\<close>

theorem TextRewriter_no_leak_between_nodes:
  "fst (TextRewriter_text rewriter buffer \<lparr>chunk_text = s, lastInTextNode = True\<rparr>) = []
   \<and> TextRewriter_run rewriter [] (concat (map node_chunks ns)) =
       ([], concat (map (\<lambda>n. replicate (length (fst n)) Remove
                               @ [Replace (rewriter (concat (fst n) @ snd n))]) ns))"
proof
  show "fst (TextRewriter_text rewriter buffer \<lparr>chunk_text = s, lastInTextNode = True\<rparr>) = []"
    by (simp add: TextRewriter_text_def)
  show "TextRewriter_run rewriter [] (concat (map node_chunks ns)) =
       ([], concat (map (\<lambda>n. replicate (length (fst n)) Remove
                               @ [Replace (rewriter (concat (fst n) @ snd n))]) ns))"
    by (induction ns) (simp_all add: TextRewriter_run_append TextRewriter_run_node)
qed

section \<open>The attribute rewriter\<close>

text \<open>
  The value has a \<^verbatim>\<open>scheme://\<close> prefix, in the sense of the source's regular expression,
  exactly when it is a non-empty word of letters, digits, underscores and dashes followed
  by \<^verbatim>\<open>://\<close>.
\<close>

lemma has_scheme_iff:
  "has_scheme a \<longleftrightarrow>
     (\<exists>w r. a = w @ ''://'' @ r \<and> w \<noteq> [] \<and> list_all word_or_dash w)"
proof
  assume "has_scheme a"
  then obtain r where "dropWhile word_or_dash a = ''://'' @ r" "takeWhile word_or_dash a \<noteq> []"
    by (auto simp: has_scheme_def prefix_def)
  then have "a = takeWhile word_or_dash a @ ''://'' @ r"
    by (metis takeWhile_dropWhile_id)
  moreover have "list_all word_or_dash (takeWhile word_or_dash a)"
    by (simp add: list_all_iff) (meson set_takeWhileD)
  ultimately show "\<exists>w r. a = w @ ''://'' @ r \<and> w \<noteq> [] \<and> list_all word_or_dash w"
    using \<open>takeWhile word_or_dash a \<noteq> []\<close> by blast
next
  assume "\<exists>w r. a = w @ ''://'' @ r \<and> w \<noteq> [] \<and> list_all word_or_dash w"
  then obtain w r where a: "a = w @ ''://'' @ r" and w: "w \<noteq> []" "list_all word_or_dash w"
    by blast
  have nc: "\<not> word_or_dash CHR '':''" by (simp add: word_or_dash_def)
  have "takeWhile word_or_dash a = w"
    using a w(2) nc by (simp add: list_all_iff takeWhile_append2)
  moreover have "dropWhile word_or_dash a = ''://'' @ r"
    using a w(2) nc by (simp add: list_all_iff dropWhile_append2)
  ultimately show "has_scheme a" using w(1) by (simp add: has_scheme_def)
qed

text \<open>
  The replacement template of \<^verbatim>\<open>element\<close> is the proxy origin followed by
  \<^verbatim>\<open>/$1\<close>. When the origin holds no dollar sign, the only reference in the template is
  \<^verbatim>\<open>$1\<close>, the whole match.
\<close>

lemma get_substitution_origin_template:
  "CHR ''$'' \<notin> set pre \<Longrightarrow> get_substitution m a p [m] (pre @ ''/$1'') = pre @ ''/'' @ m"
  by (induction pre)
     (auto simp: next_ref_plain next_ref_def is_digit_def digit_val_def)

lemma replace_http_template:
  assumes "CHR ''$'' \<notin> set pre"
  shows "replace_http a (pre @ ''/$1'') =
           (if prefix ''http://'' a \<or> prefix ''https://'' a then pre @ ''/'' @ a else a)"
proof -
  have "takeWhile not_line_terminator a @ drop (length (takeWhile not_line_terminator a)) a = a"
    by (simp flip: dropWhile_eq_drop)
  then show ?thesis
    using assms by (simp add: replace_http_def match_http_def get_substitution_origin_template)
qed

text \<open>
  Let the proxy origin hold no dollar sign. For every non-empty attribute value: a value
  with no \<^verbatim>\<open>scheme://\<close> prefix that is no \<^verbatim>\<open>data:\<close> URI is first resolved against the
  upstream origin (the handler throws where the platform cannot resolve it), any other
  value is taken as it is; then a value that begins with \<^verbatim>\<open>http://\<close> or
  \<^verbatim>\<open>https://\<close> becomes the proxy origin, a slash and the value, and any other value is
  written back unchanged. In particular, with the upstream \<^verbatim>\<open>https://example.com\<close> and
  the proxy \<^verbatim>\<open>https://proxy.test\<close>, where the platform resolves \<^verbatim>\<open>/logo.png\<close> to
  \<^verbatim>\<open>https://example.com/logo.png\<close>, the attribute becomes
  \<^verbatim>\<open>https://proxy.test/https://example.com/logo.png\<close>.
\<close>

lemma AttributeRewriter_element_rewrites:
  assumes "CHR ''$'' \<notin> set (origin proxy_url)" and "attribute \<noteq> []"
  shows "AttributeRewriter_element new_URL proxy_url upstream_url (Some attribute) =
           (case (if has_scheme attribute \<or> is_data_uri attribute then Some attribute
                  else new_URL attribute (origin upstream_url)) of
              None \<Rightarrow> Inl TypeError
            | Some absoluteURL \<Rightarrow>
                Inr (Some (if prefix ''http://'' absoluteURL \<or> prefix ''https://'' absoluteURL
                           then origin proxy_url @ ''/'' @ absoluteURL else absoluteURL)))
         \<and> (new_URL ''/logo.png'' ''https://example.com'' = Some ''https://example.com/logo.png''
              \<longrightarrow> AttributeRewriter_element new_URL example_request_url example_upstream
                     (Some ''/logo.png'')
                   = Inr (Some ''https://proxy.test/https://example.com/logo.png''))"
proof
  show "AttributeRewriter_element new_URL proxy_url upstream_url (Some attribute) =
           (case (if has_scheme attribute \<or> is_data_uri attribute then Some attribute
                  else new_URL attribute (origin upstream_url)) of
              None \<Rightarrow> Inl TypeError
            | Some absoluteURL \<Rightarrow>
                Inr (Some (if prefix ''http://'' absoluteURL \<or> prefix ''https://'' absoluteURL
                           then origin proxy_url @ ''/'' @ absoluteURL else absoluteURL)))"
    using assms
    by (simp add: AttributeRewriter_element_def replace_http_template split: option.splits)
  have t: "replace_http ''https://example.com/logo.png'' ''https://proxy.test/$1''
           = ''https://proxy.test/https://example.com/logo.png''"
    using replace_http_template [of "''https://proxy.test''" "''https://example.com/logo.png''"]
    by simp
  have s: "\<not> has_scheme ''/logo.png''" "\<not> is_data_uri ''/logo.png''"
    by (simp_all add: has_scheme_def is_data_uri_def word_or_dash_def)
  show "new_URL ''/logo.png'' ''https://example.com'' = Some ''https://example.com/logo.png''
              \<longrightarrow> AttributeRewriter_element new_URL example_request_url example_upstream
                     (Some ''/logo.png'')
                   = Inr (Some ''https://proxy.test/https://example.com/logo.png'')"
    using s t
    by (simp add: AttributeRewriter_element_def example_request_url_def example_upstream_def)
qed

text \<open>
  The scenario's \<^verbatim>\<open>img\<close> element, for a resolver that appends a path-absolute
  reference to the base origin.
\<close>

lemma AttributeRewriter_element_scenario:
  "CHR ''$'' \<notin> set (origin example_request_url) \<and> ''/logo.png'' \<noteq> []
   \<and> (\<lambda>a b. Some (b @ a)) ''/logo.png'' ''https://example.com''
       = Some ''https://example.com/logo.png''
   \<and> AttributeRewriter_element (\<lambda>a b. Some (b @ a)) example_request_url example_upstream
        (Some ''/logo.png'')
      = Inr (Some ''https://proxy.test/https://example.com/logo.png'')"
proof -
  have a: "CHR ''$'' \<notin> set (origin example_request_url)"
    by (simp add: example_request_url_def)
  have b: "''/logo.png'' \<noteq> []" by simp
  have "AttributeRewriter_element (\<lambda>a b. Some (b @ a)) example_request_url example_upstream
          (Some ''/logo.png'')
        = Inr (Some ''https://proxy.test/https://example.com/logo.png'')"
    using AttributeRewriter_element_rewrites
            [OF a b, of "\<lambda>a b. Some (b @ a)" example_upstream, THEN conjunct2]
    by simp
  with a show ?thesis by simp
qed

text \<open>
  Claim C3, on the code. The claim is for every non-empty attribute value and has the
  rewritten value be the literal concatenation of the proxy origin, a slash and the
  absolute URL. The source puts the proxy origin into the replacement template of a
  regular expression replace, unescaped. For the proxy \<^verbatim>\<open>https://p$1.test\<close> the template
  is \<^verbatim>\<open>https://p$1.test/$1\<close>, its first \<^verbatim>\<open>$1\<close> is read as the matched URL too, and
  the attribute \<^verbatim>\<open>https://example.com/a\<close> becomes
  \<^verbatim>\<open>https://phttps://example.com/a.test/https://example.com/a\<close> and not
  \<^verbatim>\<open>https://p$1.test/https://example.com/a\<close>.
\<close>

theorem AttributeRewriter_dollar_origin_example:
  "AttributeRewriter_element new_URL dollar_proxy example_upstream (Some ''https://example.com/a'')
     = Inr (Some ''https://phttps://example.com/a.test/https://example.com/a'')
   \<and> AttributeRewriter_element new_URL dollar_proxy example_upstream (Some ''https://example.com/a'')
     \<noteq> Inr (Some (origin dollar_proxy @ ''/'' @ ''https://example.com/a''))"
proof -
  have s: "has_scheme ''https://example.com/a''"
    by (simp add: has_scheme_def word_or_dash_def)
  have r: "replace_http ''https://example.com/a'' ''https://p$1.test/$1''
           = ''https://phttps://example.com/a.test/https://example.com/a''"
    by (simp add: replace_http_def match_http_def not_line_terminator_def next_ref_def
          is_digit_def digit_val_def)
  show ?thesis
    using s r by (simp add: AttributeRewriter_element_def dollar_proxy_def)
qed

section \<open>Texts without upstream references\<close>

lemma not_sublist_mono: "sublist a b \<Longrightarrow> \<not> sublist a t \<Longrightarrow> \<not> sublist b t"
  using sublist_order.order_trans by blast

lemma escape_slashes_id: "CHR ''/'' \<notin> set s \<Longrightarrow> escape_slashes s = s"
  by (induction s) (auto simp: escape_slashes_def)

lemma sublist_hostname_patterns:
  assumes "http_url u"
  shows "sublist (hostname u) (origin u)"
    and "sublist (hostname u) (escape_slashes (origin u))"
    and "sublist (hostname u) (''//'' @ hostPort u @ pathname u)"
proof -
  from assms have o: "origin u = (protocol u @ ''//'') @ hostname u @ (if port u = [] then [] else '':'' @ port u)"
    and ns: "CHR ''/'' \<notin> set (hostname u)"
    by (simp_all add: http_url_def)
  show "sublist (hostname u) (origin u)"
    by (subst o) (rule sublist_appendI)
  have "escape_slashes (origin u) = escape_slashes (protocol u @ ''//'') @ hostname u
          @ escape_slashes (if port u = [] then [] else '':'' @ port u)"
    by (subst o) (simp only: escape_slashes_append escape_slashes_id [OF ns])
  then show "sublist (hostname u) (escape_slashes (origin u))"
    by (metis sublist_appendI)
  have "''//'' @ hostPort u @ pathname u = ''//'' @ hostname u @ ((if port u = [] then [] else '':'' @ port u) @ pathname u)"
    by (simp add: hostPort_def)
  then show "sublist (hostname u) (''//'' @ hostPort u @ pathname u)"
    by (metis sublist_appendI)
qed

text \<open>
  Claim C5, as amended. Let the upstream URL be an \<^verbatim>\<open>http:\<close> or \<^verbatim>\<open>https:\<close> URL. Every text
  that contains no occurrence of the upstream host name (and so none of the upstream
  origin) and none of the relative-URL markers \<^verbatim>\<open>'/\<close>, \<^verbatim>\<open>"/\<close> and \<^verbatim>\<open></\<close> is returned
  unchanged by the rule engine.
\<close>

theorem rewrite_identity_on_unrelated:
  assumes u: "http_url upstreamURL"
    and h: "\<not> sublist (hostname upstreamURL) t"
    and q1: "\<not> sublist [CHR 0x27, CHR ''/''] t"
    and q2: "\<not> sublist [CHR 0x22, CHR ''/''] t"
    and q3: "\<not> sublist ''</'' t"
  shows "rewrite upstreamURL publicURL (Some t) = t"
proof -
  note p = sublist_hostname_patterns [OF u]
  have ne: "hostname upstreamURL \<noteq> []" using u by (simp add: http_url_def)
  have n4: "escape_slashes (origin upstreamURL) \<noteq> []"
    and n5: "origin upstreamURL \<noteq> []"
    using p(1,2) ne by auto
  have s1: "replaceAll t [CHR 0x27, CHR ''/''] r = t" for r
    using q1 by (simp add: replaceAll_absent)
  have s2: "replaceAll t [CHR 0x22, CHR ''/''] r = t" for r
    using q2 by (simp add: replaceAll_absent)
  have s3: "replaceAll t ''</'' r = t" for r
    using q3 by (simp add: replaceAll_absent)
  have s4: "replaceAll t (escape_slashes (origin upstreamURL)) r = t" for r
    using not_sublist_mono [OF p(2) h] n4 by (simp add: replaceAll_absent)
  have s5: "replaceAll t (origin upstreamURL) r = t" for r
    using not_sublist_mono [OF p(1) h] n5 by (simp add: replaceAll_absent)
  have s6: "replaceAll t (''//'' @ hostPort upstreamURL @ pathname upstreamURL) r = t" for r
    using not_sublist_mono [OF p(3) h] by (simp add: replaceAll_absent)
  have s7: "replaceAll t (hostname upstreamURL) r = t" for r
    using h ne by (simp add: replaceAll_absent)
  show ?thesis
    unfolding rewrite_def
    by (simp only: option.case Let_def replaceAll_slash s1 s2 s3 s4 s5 s6 s7)
qed

text \<open>
  Claim C5 as stated fails: the text \<^verbatim>\<open>"/a"\<close> contains neither the upstream origin nor
  the upstream host name, and rule 1 rewrites it to \<^verbatim>\<open>"https://proxy.test/a"\<close>.
\<close>

theorem rewrite_identity_on_unrelated_counterexample:
  "\<not> sublist (origin example_upstream) ([CHR 0x22] @ ''/a'' @ [CHR 0x22])
   \<and> \<not> sublist (hostname example_upstream) ([CHR 0x22] @ ''/a'' @ [CHR 0x22])
   \<and> rewrite example_upstream example_proxy (Some ([CHR 0x22] @ ''/a'' @ [CHR 0x22]))
       = [CHR 0x22] @ ''https://proxy.test/a'' @ [CHR 0x22]
   \<and> rewrite example_upstream example_proxy (Some ([CHR 0x22] @ ''/a'' @ [CHR 0x22]))
       \<noteq> [CHR 0x22] @ ''/a'' @ [CHR 0x22]"
  by (simp add: sublist_Cons_right rewrite_def replaceAll_def next_ref_def is_digit_def
        digit_val_def hostPort_def example_upstream_def example_proxy_def)

text \<open>The theorem at the scenario's URLs, on a style sheet without URLs.\<close>

theorem rewrite_identity_on_unrelated_witness:
  "http_url example_upstream
   \<and> \<not> sublist (hostname example_upstream) ''body { color: red }''
   \<and> \<not> sublist [CHR 0x27, CHR ''/''] ''body { color: red }''
   \<and> \<not> sublist [CHR 0x22, CHR ''/''] ''body { color: red }''
   \<and> \<not> sublist ''</'' ''body { color: red }''
   \<and> rewrite example_upstream example_proxy (Some ''body { color: red }'') = ''body { color: red }''"
proof -
  have u: "http_url example_upstream"
    by (simp add: http_url_def example_upstream_def)
  have h: "\<not> sublist (hostname example_upstream) ''body { color: red }''"
    by (simp add: sublist_Cons_right example_upstream_def)
  have q1: "\<not> sublist [CHR 0x27, CHR ''/''] ''body { color: red }''"
    and q2: "\<not> sublist [CHR 0x22, CHR ''/''] ''body { color: red }''"
    and q3: "\<not> sublist ''</'' ''body { color: red }''"
    by (simp_all add: sublist_Cons_right)
  show ?thesis
    using u h q1 q2 q3 rewrite_identity_on_unrelated [OF u h q1 q2 q3, of example_proxy]
    by simp
qed

section \<open>The orchestrator\<close>

subsection \<open>Header lookups\<close>

lemma lowercase_names:
  "lowercase ''access-control-allow-origin'' = ''access-control-allow-origin''"
  "lowercase ''access-control-allow-credentials'' = ''access-control-allow-credentials''"
  "lowercase ''content-security-policy'' = ''content-security-policy''"
  "lowercase ''content-security-policy-report-only'' = ''content-security-policy-report-only''"
  "lowercase ''clear-site-data'' = ''clear-site-data''"
  "lowercase ''X-Forwarded-Host'' = ''x-forwarded-host''"
  "lowercase ''X-Forwarded-Proto'' = ''x-forwarded-proto''"
  "lowercase ''X-Forwarded-For'' = ''x-forwarded-for''"
  "lowercase ''CF-Connecting-IP'' = ''cf-connecting-ip''"
  "lowercase ''content-type'' = ''content-type''"
  "lowercase ''link'' = ''link''"
  "lowercase ''Host'' = ''host''"
  "lowercase ''Referer'' = ''referer''"
  by (simp_all add: lowercase_def lower_char_def)

lemma headers_get_set:
  "headers_get (headers_set h n v) m
   = (if lowercase m = lowercase n then Some v else headers_get h m)"
  by (simp add: headers_get_def headers_set_def)

lemma headers_get_delete:
  "headers_get (headers_delete h n) m
   = (if lowercase m = lowercase n then None else headers_get h m)"
  by (simp add: headers_get_def headers_delete_def)

lemma headers_has_get: "headers_has h n = (headers_get h n \<noteq> None)"
  by (simp add: headers_get_def headers_has_def)

lemma modified_headers_content_type:
  "headers_get (modified_headers request proxyURL upstreamResponse) ''content-type''
   = headers_get (res_headers upstreamResponse) ''content-type''"
  by (simp add: modified_headers_def headers_get_def headers_set_def headers_delete_def
        lowercase_names)

lemma modified_headers_link:
  "headers_get (modified_headers request proxyURL upstreamResponse) ''link''
   = headers_get (res_headers upstreamResponse) ''link''"
  by (simp add: modified_headers_def headers_get_def headers_set_def headers_delete_def
        lowercase_names)

subsection \<open>The three branches of the response\<close>

lemma respond_passthrough:
  assumes "headers_get (res_headers upstreamResponse) ''content-type'' = None"
  shows "respond transform request upstreamURL upstreamResponse = Inr upstreamResponse"
  using assms by (simp add: respond_def Let_def modified_headers_content_type)

lemma respond_text:
  assumes "headers_get (res_headers upstreamResponse) ''content-type'' = Some ct"
    and "\<not> includes_str ct ''text/html''"
    and "startsWith ct ''text/'' \<or> startsWith ct ''application/x-javascript''
         \<or> startsWith ct ''application/javascript''"
  shows "respond transform request upstreamURL upstreamResponse =
           new_Response
             (StringBody (rewrite (req_url request) upstreamURL
                (Some (case body upstreamResponse of None \<Rightarrow> [] | Some b \<Rightarrow> b))))
             (status upstreamResponse) (statusText upstreamResponse) (res_headers upstreamResponse)"
  using assms by (simp add: respond_def Let_def modified_headers_content_type)

lemma final_headers_content_type:
  "headers_get (final_headers request upstreamURL upstreamResponse) ''content-type''
   = headers_get (res_headers upstreamResponse) ''content-type''"
  by (simp add: final_headers_def Let_def headers_get_set lowercase_names
        modified_headers_content_type)

lemma respond_html:
  assumes "headers_get (res_headers upstreamResponse) ''content-type'' = Some ct"
    and "includes_str ct ''text/html''"
  shows "respond transform request upstreamURL upstreamResponse =
           new_Response
             (case transform
                     (html_handlers (req_url request) upstreamURL
                        (\<lambda>s. rewrite (req_url request) upstreamURL (Some s)))
                     (body upstreamResponse) of
                None \<Rightarrow> NullBody | Some b \<Rightarrow> StreamBody b)
             (status upstreamResponse) []
             (final_headers request upstreamURL upstreamResponse)"
proof -
  have "headers_get (final_headers request upstreamURL upstreamResponse) ''content-type'' = Some ct"
    using assms(1) by (simp add: final_headers_content_type)
  then show ?thesis
    using assms
    unfolding respond_def final_headers_def Let_def
    by (simp add: modified_headers_content_type)
qed

lemma proxy_fetched:
  "proxy (\<lambda>u m h. Some upstreamResponse) transform request upstreamURL =
     ([(href upstreamURL, req_method request,
        headers_set (headers_set (req_headers request) ''Host'' (origin upstreamURL))
          ''Referer'' (origin (req_url request)))],
      respond transform request upstreamURL upstreamResponse)"
  by (simp add: proxy_def)

subsection \<open>The \<^verbatim>\<open>link\<close> header\<close>

lemma rewrite_link_example:
  "rewrite example_request_url example_upstream (Some ''</style.css>; rel=preload'')
   = ''<https://example.com/style.css>; rel=preload''"
  by (simp add: rewrite_def replaceAll_def next_ref_def is_digit_def digit_val_def hostPort_def
        example_upstream_def example_request_url_def)

text \<open>
  Claim C4, on the code. The orchestrator does rewrite a \<^verbatim>\<open>link\<close> header with the rule
  engine it builds, but it builds it as \<^verbatim>\<open>rewrite(proxyURL, upstreamURL)\<close>: the proxy
  takes the place of the parameter \<^verbatim>\<open>originURL\<close> and the upstream that of
  \<^verbatim>\<open>publicURL\<close>. For the scenario's HTML response the header
  \<^verbatim>\<open></style.css>; rel=preload\<close> comes back as
  \<^verbatim>\<open><https://example.com/style.css>; rel=preload\<close>, anchored at the upstream and not at
  the proxy as the claim has it.
\<close>

theorem proxy_link_header_example:
  "(case snd (proxy (\<lambda>u m h. Some example_html_response) transform example_request example_upstream) of
      Inl e \<Rightarrow> None
    | Inr r \<Rightarrow> headers_get (res_headers r) ''link'')
   = Some ''<https://example.com/style.css>; rel=preload''"
proof -
  have ct: "headers_get (res_headers example_html_response) ''content-type'' = Some ''text/html''"
    by (simp add: example_html_response_def headers_get_def lowercase_names)
  have inc: "includes_str ''text/html'' ''text/html''"
    by (simp add: includes_str_def)
  have l: "headers_get (res_headers example_html_response) ''link'' = Some ''</style.css>; rel=preload''"
    by (simp add: example_html_response_def headers_get_def lowercase_names)
  have r: "req_url example_request = example_request_url"
    by (simp add: example_request_def)
  have fh: "headers_get (final_headers example_request example_upstream example_html_response) ''link''
            = Some ''<https://example.com/style.css>; rel=preload''"
    by (simp add: final_headers_def Let_def headers_has_get modified_headers_link l r
          headers_get_set rewrite_link_example)
  have st: "status example_html_response = 200"
    by (simp add: example_html_response_def)
  show ?thesis
    by (simp add: proxy_fetched respond_html [OF ct inc] new_Response_def st
          null_body_status_def fh split: option.splits)
qed

subsection \<open>The header contract\<close>

text \<open>
  The streaming HTML branch returns the modified copy of the headers, so every response
  that it returns meets the contract.
\<close>

lemma modified_headers_contract:
  "headers_get (modified_headers request proxyURL up) ''access-control-allow-origin'' = Some ''*''"
  "headers_get (modified_headers request proxyURL up) ''access-control-allow-credentials'' = Some ''true''"
  "headers_get (modified_headers request proxyURL up) ''content-security-policy'' = None"
  "headers_get (modified_headers request proxyURL up) ''content-security-policy-report-only'' = None"
  "headers_get (modified_headers request proxyURL up) ''clear-site-data'' = None"
  "headers_get (modified_headers request proxyURL up) ''X-Forwarded-Host'' = Some (origin proxyURL)"
  "headers_get (modified_headers request proxyURL up) ''X-Forwarded-Proto'' = Some (protocol proxyURL)"
  "headers_get (modified_headers request proxyURL up) ''X-Forwarded-For''
     = Some (case headers_get (req_headers request) ''CF-Connecting-IP'' of None \<Rightarrow> [] | Some ip \<Rightarrow> ip)"
  by (simp_all add: modified_headers_def headers_get_set headers_get_delete lowercase_names)

lemma final_headers_other:
  "lowercase n \<noteq> ''link'' \<Longrightarrow>
   headers_get (final_headers request upstreamURL up) n
   = headers_get (modified_headers request (req_url request) up) n"
  by (simp add: final_headers_def Let_def headers_get_set lowercase_names)

lemma new_Response_stream_headers:
  "new_Response (case b of None \<Rightarrow> NullBody | Some x \<Rightarrow> StreamBody x) st stText hs = Inr r
   \<Longrightarrow> res_headers r = hs"
  by (auto simp: new_Response_def split: option.splits if_splits)

lemma respond_html_header_contract:
  assumes ct: "headers_get (res_headers up) ''content-type'' = Some ct"
    and html: "includes_str ct ''text/html''"
    and r: "respond transform request upstreamURL up = Inr r"
  shows "headers_get (res_headers r) ''access-control-allow-origin'' = Some ''*''
       \<and> headers_get (res_headers r) ''access-control-allow-credentials'' = Some ''true''
       \<and> headers_get (res_headers r) ''content-security-policy'' = None
       \<and> headers_get (res_headers r) ''content-security-policy-report-only'' = None
       \<and> headers_get (res_headers r) ''clear-site-data'' = None
       \<and> headers_get (res_headers r) ''X-Forwarded-Host'' = Some (origin (req_url request))
       \<and> headers_get (res_headers r) ''X-Forwarded-Proto'' = Some (protocol (req_url request))
       \<and> headers_get (res_headers r) ''X-Forwarded-For''
           = Some (case headers_get (req_headers request) ''CF-Connecting-IP'' of
                     None \<Rightarrow> [] | Some ip \<Rightarrow> ip)"
proof -
  have "res_headers r = final_headers request upstreamURL up"
    using r unfolding respond_html [OF ct html] by (rule new_Response_stream_headers)
  then show ?thesis
    by (simp add: final_headers_other lowercase_names modified_headers_contract)
qed

text \<open>
  Claim C6, on the code. In the buffered text branch the response is built from the
  upstream response, not from the modified copy of its headers: for the scenario's style
  sheet the returned response has no \<^verbatim>\<open>access-control-allow-origin\<close> and no
  \<^verbatim>\<open>X-Forwarded-Host\<close>, and still carries the upstream's
  \<^verbatim>\<open>content-security-policy\<close>.
\<close>

theorem proxy_text_branch_headers_example:
  "(case snd (proxy (\<lambda>u m h. Some example_css_response) transform example_request example_upstream) of
      Inl e \<Rightarrow> None
    | Inr r \<Rightarrow> Some (headers_get (res_headers r) ''access-control-allow-origin'',
                      headers_get (res_headers r) ''content-security-policy'',
                      headers_get (res_headers r) ''X-Forwarded-Host''))
   = Some (None, Some ''default-src *'', None)"
proof -
  have ct: "headers_get (res_headers example_css_response) ''content-type'' = Some ''text/css''"
    by (simp add: example_css_response_def headers_get_def lowercase_names)
  have ninc: "\<not> includes_str ''text/css'' ''text/html''"
    by (simp add: includes_str_def sublist_Cons_right)
  have sw: "startsWith ''text/css'' ''text/'' \<or> startsWith ''text/css'' ''application/x-javascript''
         \<or> startsWith ''text/css'' ''application/javascript''"
    by (simp add: startsWith_def)
  have st: "status example_css_response = 200"
    by (simp add: example_css_response_def)
  have hs: "headers_has (res_headers example_css_response) ''content-type''"
    using ct by (simp add: headers_has_get)
  have g: "headers_get (res_headers example_css_response) ''access-control-allow-origin'' = None"
    "headers_get (res_headers example_css_response) ''content-security-policy'' = Some ''default-src *''"
    "headers_get (res_headers example_css_response) ''X-Forwarded-Host'' = None"
    by (simp_all add: example_css_response_def headers_get_def lowercase_names)
  show ?thesis
    by (simp add: proxy_fetched respond_text [OF ct ninc sw] new_Response_def st
          null_body_status_def hs g)
qed

subsection \<open>Passthrough\<close>

text \<open>
  Claim C10. When the upstream response has no \<^verbatim>\<open>content-type\<close> header, the
  orchestrator returns the upstream response itself: status, status text, body and headers
  are the upstream's, and none of the modifications made to the copied headers is on it.
\<close>

theorem proxy_passthrough_without_content_type:
  assumes "headers_get (res_headers upstreamResponse) ''content-type'' = None"
    and "global_fetch (href upstreamURL) (req_method request)
           (headers_set (headers_set (req_headers request) ''Host'' (origin upstreamURL))
              ''Referer'' (origin (req_url request)))
         = Some upstreamResponse"
  shows "snd (proxy global_fetch transform request upstreamURL) = Inr upstreamResponse"
  using assms by (simp add: proxy_def respond_passthrough)

text \<open>The theorem at the scenario's response without a content type.\<close>

theorem proxy_passthrough_without_content_type_witness:
  "headers_get (res_headers example_png_response) ''content-type'' = None
   \<and> snd (proxy (\<lambda>u m h. Some example_png_response) (\<lambda>hs b. b) example_request example_upstream)
       = Inr example_png_response"
proof -
  have a: "headers_get (res_headers example_png_response) ''content-type'' = None"
    by (simp add: example_png_response_def headers_get_def lowercase_names)
  show ?thesis
    using a proxy_passthrough_without_content_type
                [OF a, of "\<lambda>u m h. Some example_png_response" example_upstream example_request
                 "\<lambda>hs b. b"]
    by simp
qed

section \<open>The entry point\<close>

lemma bad_request_response:
  "new_Response (StringBody ''What is that URL?'') 400 [] Map.empty =
     Inr \<lparr>status = 400, statusText = [],
          res_headers = [''content-type'' \<mapsto> ''text/plain;charset=UTF-8''],
          body = Some ''What is that URL?''\<rparr>"
  by (simp add: new_Response_def null_body_status_def headers_has_def headers_set_def
        lowercase_names)

lemma upstream_of_nothing: "upstream_of_path ''/nothing'' = []"
  by (simp add: upstream_of_path_def match_here_def)

text \<open>
  The attribute rewriter writes an absolute URL as the proxy origin, a slash and the URL.
  The entry point reads the URL back from the \<^verbatim>\<open>href\<close> of such a request: the upstream
  string is the URL again, when what follows the scheme's two slashes starts with no
  further slash and holds no line terminator.
\<close>

lemma match_here_https:
  "\<not> prefix ''/'' rest \<Longrightarrow> list_all not_line_terminator rest \<Longrightarrow>
   match_here (''/https://'' @ rest) = Some (''https:'', rest)"
  by (cases rest) (auto simp: match_here_def list_all_iff takeWhile_eq_all_conv)

lemma match_here_http:
  "\<not> prefix ''/'' rest \<Longrightarrow> list_all not_line_terminator rest \<Longrightarrow>
   match_here (''/http://'' @ rest) = Some (''http:'', rest)"
  by (cases rest) (auto simp: match_here_def list_all_iff takeWhile_eq_all_conv)

lemma upstream_of_path_decodes:
  assumes "scheme = ''http:'' \<or> scheme = ''https:''"
    and "\<not> prefix ''/'' rest" and "list_all not_line_terminator rest"
  shows "upstream_of_path (drop (length proxy_origin) (proxy_origin @ ''/'' @ scheme @ ''//'' @ rest))
         = scheme @ ''//'' @ rest"
  using assms match_here_https [of rest] match_here_http [of rest]
  by (auto simp: upstream_of_path_def)

text \<open>
  Claim C9, as amended. For every request that is not plain \<^verbatim>\<open>http:\<close> and whose
  upstream string, taken from the path, does not parse as an absolute URL, the handler
  returns a response with status 400 and the body \<^verbatim>\<open>What is that URL?\<close>, and makes no
  upstream request.
\<close>

theorem fetch_bad_upstream_400:
  assumes "protocol (req_url request) \<noteq> ''http:''"
    and "new_URL (upstream_of_path
                    (drop (length (origin (req_url request))) (href (req_url request)))) = None"
  shows "fetch new_URL set_protocol global_fetch transform request =
           ([], Inr \<lparr>status = 400, statusText = [],
                     res_headers = [''content-type'' \<mapsto> ''text/plain;charset=UTF-8''],
                     body = Some ''What is that URL?''\<rparr>)"
  using assms by (simp add: fetch_def Let_def bad_request_response)

text \<open>The theorem at the \<^verbatim>\<open>https:\<close> request for \<^verbatim>\<open>/nothing\<close>.\<close>

theorem fetch_bad_upstream_400_witness:
  "protocol (req_url example_bad_request) \<noteq> ''http:''
   \<and> example_new_URL (upstream_of_path
         (drop (length (origin (req_url example_bad_request))) (href (req_url example_bad_request))))
       = None
   \<and> fetch example_new_URL example_set_protocol (\<lambda>u m h. None) (\<lambda>hs b. b) example_bad_request =
           ([], Inr \<lparr>status = 400, statusText = [],
                     res_headers = [''content-type'' \<mapsto> ''text/plain;charset=UTF-8''],
                     body = Some ''What is that URL?''\<rparr>)"
proof -
  have a: "protocol (req_url example_bad_request) \<noteq> ''http:''"
    by (simp add: example_bad_request_def)
  have p: "drop (length (origin (req_url example_bad_request))) (href (req_url example_bad_request))
           = ''/nothing''"
    by (simp add: example_bad_request_def)
  have b: "example_new_URL (upstream_of_path
         (drop (length (origin (req_url example_bad_request))) (href (req_url example_bad_request))))
       = None"
    by (simp only: p upstream_of_nothing) (simp add: example_new_URL_def)
  show ?thesis
    using a b
      fetch_bad_upstream_400 [where request = example_bad_request and new_URL = example_new_URL,
        OF a b, of example_set_protocol "\<lambda>u m h. None" "\<lambda>hs b. b"]
    by blast
qed

text \<open>
  Claim C9 as stated, for every request, fails: the redirect of plain \<^verbatim>\<open>http:\<close> comes
  first. The \<^verbatim>\<open>http:\<close> request for \<^verbatim>\<open>/nothing\<close> has an upstream string that does not
  parse, and the handler answers it with status 301.
\<close>

theorem fetch_bad_upstream_400_counterexample:
  "example_new_URL (upstream_of_path
         (drop (length (origin (req_url example_http_request))) (href (req_url example_http_request))))
       = None
   \<and> fetch example_new_URL example_set_protocol (\<lambda>u m h. None) (\<lambda>hs b. b) example_http_request =
           ([], Inr \<lparr>status = 301, statusText = [],
                     res_headers =
                       [''strict-transport-security'' \<mapsto> ''max-age=31536000; includeSubDomains; preload'',
                        ''location'' \<mapsto> ''https://proxy.test/nothing'',
                        ''content-type'' \<mapsto> ''text/plain;charset=UTF-8''],
                     body = Some ''http not allowed''\<rparr>)"
proof -
  have p: "drop (length (origin (req_url example_http_request))) (href (req_url example_http_request))
           = ''/nothing''"
    by (simp add: example_http_request_def)
  have b: "example_new_URL (upstream_of_path
         (drop (length (origin (req_url example_http_request))) (href (req_url example_http_request))))
       = None"
    by (simp only: p upstream_of_nothing) (simp add: example_new_URL_def)
  have l: "href (example_set_protocol (req_url example_http_request) ''https:'')
           = ''https://proxy.test/nothing''"
    by (simp add: example_set_protocol_def example_http_request_def)
  have h: "protocol (req_url example_http_request) = ''http:''"
    by (simp add: example_http_request_def)
  have r: "fetch example_new_URL example_set_protocol (\<lambda>u m h. None) (\<lambda>hs b. b) example_http_request =
           ([], Inr \<lparr>status = 301, statusText = [],
                     res_headers =
                       [''strict-transport-security'' \<mapsto> ''max-age=31536000; includeSubDomains; preload'',
                        ''location'' \<mapsto> ''https://proxy.test/nothing'',
                        ''content-type'' \<mapsto> ''text/plain;charset=UTF-8''],
                     body = Some ''http not allowed''\<rparr>)"
    by (simp add: fetch_def Let_def h l new_Response_def null_body_status_def headers_has_def
          headers_set_def lowercase_names)
  from b r show ?thesis by blast
qed

end
